theory Spec2Isabelle
  imports Main "HOL-Library.Sublist"
begin

section \<open>Go library calls used by the program\<close>

text \<open>
  Go strings are byte sequences; \<^typ>\<open>string\<close> is a list of bytes.  The functions of this
  section model the calls of the Go standard library that the program makes
  (\<^verbatim>\<open>strings.Replace\<close>, \<^verbatim>\<open>http.Header\<close>, \<^verbatim>\<open>http.ResponseWriter\<close>).
\<close>

subsection \<open>strings.Count and strings.Replace\<close>

text \<open>Number of non-overlapping instances of a non-empty \<open>old\<close> in \<open>s\<close>, scanning from the left.\<close>

function count_occ :: "string \<Rightarrow> string \<Rightarrow> nat" where
  "count_occ old [] = 0"
| "count_occ old (c # cs) =
     (if prefix old (c # cs) then Suc (count_occ old (drop (length old - 1) cs))
      else count_occ old cs)"
  by pat_completeness auto
termination
  by (relation "measure (\<lambda>(old, s). length s)") auto

text \<open>\<^verbatim>\<open>strings.Count\<close>: for the empty separator the library answers the number of runes plus
  one; the model counts bytes there, which is the same on ASCII text.\<close>

definition strings_Count :: "string \<Rightarrow> string \<Rightarrow> nat" where
  "strings_Count s old = (if old = [] then length s + 1 else count_occ old s)"

text \<open>The replacement loop for a non-empty \<open>old\<close>: the first \<open>k\<close> instances, left to right.\<close>

fun replace_upto :: "nat \<Rightarrow> string \<Rightarrow> string \<Rightarrow> string \<Rightarrow> string" where
  "replace_upto 0 old new s = s"
| "replace_upto (Suc k) old new [] = []"
| "replace_upto (Suc k) old new (c # cs) =
     (if prefix old (c # cs) then new @ replace_upto k old new (drop (length old - 1) cs)
      else c # replace_upto (Suc k) old new cs)"

text \<open>The replacement loop for the empty \<open>old\<close>: \<open>new\<close> goes after each of the first \<open>k\<close>
  bytes (the library steps by runes).\<close>

fun insert_after :: "nat \<Rightarrow> string \<Rightarrow> string \<Rightarrow> string" where
  "insert_after 0 new s = s"
| "insert_after (Suc k) new [] = []"
| "insert_after (Suc k) new (c # cs) = c # new @ insert_after k new cs"

text \<open>\<^verbatim>\<open>strings.Replace(s, old, new, n)\<close>: a negative \<open>n\<close> means no limit.\<close>

definition strings_Replace :: "string \<Rightarrow> string \<Rightarrow> string \<Rightarrow> int \<Rightarrow> string" where
  "strings_Replace s old new n =
     (if old = new \<or> n = 0 then s
      else let m = strings_Count s old in
        if m = 0 then s
        else let k = (if n < 0 \<or> int m < n then m else nat n) in
          if old = [] then new @ insert_after (k - 1) new s
          else replace_upto k old new s)"

subsection \<open>http.Header\<close>

text \<open>A header map: key to the list of its values, as \<^verbatim>\<open>map[string][]string\<close>.\<close>

type_synonym http_Header = "string \<rightharpoonup> string list"

text \<open>\<^verbatim>\<open>Header.Get(key)\<close>: the first value stored under the canonical form of the key, or the
  empty string.  The canonicalisation (\<^verbatim>\<open>textproto.CanonicalMIMEHeaderKey\<close>) is a parameter.\<close>

definition Header_Get :: "(string \<Rightarrow> string) \<Rightarrow> http_Header \<Rightarrow> string \<Rightarrow> string" where
  "Header_Get canon h key =
     (case h (canon key) of
        None \<Rightarrow> []
      | Some vs \<Rightarrow> (case vs of [] \<Rightarrow> [] | v # _ \<Rightarrow> v))"

subsection \<open>http.Request and http.ResponseWriter\<close>

record URL =
  Scheme :: string
  Host :: string
  Path :: string
  RawQuery :: string

text \<open>A request, with the values of its context in \<open>Ctx\<close>.\<close>

record 'c Request =
  Method :: string
  url :: URL
  Header :: http_Header
  Body :: string
  Ctx :: 'c

text \<open>A response writer in the manner of \<^verbatim>\<open>httptest.ResponseRecorder\<close>: the header map, whether
  the status line has been written, the status code and the bytes of the body.\<close>

record ResponseWriter =
  HeaderMap :: http_Header
  wroteHeader :: bool
  Code :: int
  BodyBytes :: string

definition NewRecorder :: ResponseWriter where
  "NewRecorder = \<lparr>HeaderMap = Map.empty, wroteHeader = False, Code = 200, BodyBytes = []\<rparr>"

text \<open>\<^verbatim>\<open>WriteHeader\<close> takes effect once; a later call is ignored.\<close>

definition WriteHeader :: "int \<Rightarrow> ResponseWriter \<Rightarrow> ResponseWriter" where
  "WriteHeader statusCode w =
     (if wroteHeader w then w else w\<lparr>wroteHeader := True, Code := statusCode\<rparr>)"

text \<open>\<^verbatim>\<open>Write\<close> sends the status line with 200 first when none has been written.  (Only in that
  case does the recorder guess a content type from the bytes; the helpers below call
  \<^verbatim>\<open>WriteHeader\<close> before every \<^verbatim>\<open>Write\<close>, so the guess is left out.)\<close>

definition Write :: "string \<Rightarrow> ResponseWriter \<Rightarrow> ResponseWriter" where
  "Write content w =
     (let w' = (if wroteHeader w then w else WriteHeader 200 w)
      in w'\<lparr>BodyBytes := BodyBytes w' @ content\<rparr>)"

definition StatusInternalServerError :: int where
  "StatusInternalServerError = 500"

definition StatusNotFound :: int where
  "StatusNotFound = 404"

definition StatusForbidden :: int where
  "StatusForbidden = 403"

text \<open>What a handler does with a request: it answers on the writer itself, or it hands writer and
  request on to the next stage (the next handler, or the transport of the reverse proxy).\<close>

datatype 'c Outcome = Responded ResponseWriter | Forwarded ResponseWriter "'c Request"

section \<open>Evaluator construction\<close>

record OPAModuleConfig =
  Name :: string
  Content :: string

text \<open>The options handed to \<^verbatim>\<open>rego.New\<close>: the query, the module, the parsed input, the unknowns
  and the names of the registered built-ins.\<close>

record 't RegoQuery =
  Query :: string
  Module :: "string \<times> string"
  ParsedInput :: 't
  Unknowns :: "string list"
  Functions :: "string list"

record 't OPAEvaluator =
  PermissionQuery :: "'t RegoQuery"
  RequiredAllowPermission :: string

definition unknowns :: "string list" where
  "unknowns = [''data.resources'']"

definition getHeaderFunction :: string where
  "getHeaderFunction = ''get_header''"

text \<open>
  \<^verbatim>\<open>NewOPAEvaluator(policy, opaModuleConfig, input)\<close>.  \<^verbatim>\<open>json.Marshal\<close> and \<^verbatim>\<open>ast.ParseTerm\<close>
  are library calls, taken as parameters; each may fail with a message (\<open>Inl\<close>).
\<close>

definition NewOPAEvaluator ::
  "('i \<Rightarrow> string + string) \<Rightarrow> (string \<Rightarrow> string + 't) \<Rightarrow>
   string \<Rightarrow> OPAModuleConfig \<Rightarrow> 'i \<Rightarrow> string + 't OPAEvaluator" where
  "NewOPAEvaluator json_Marshal ast_ParseTerm policy opaModuleConfig input =
     (case json_Marshal input of
        Inl err \<Rightarrow> Inl (''failed input JSON encode: '' @ err)
      | Inr inputBytes \<Rightarrow>
          (case ast_ParseTerm inputBytes of
             Inl err \<Rightarrow> Inl (''failed input parse: '' @ err)
           | Inr inputTerm \<Rightarrow>
               (let sanitizedPolicy = strings_Replace policy ''.'' ''_'' (- 1);
                    queryString = ''data.policies.'' @ sanitizedPolicy;
                    query = \<lparr>Query = queryString,
                             Module = (Name opaModuleConfig, Content opaModuleConfig),
                             ParsedInput = inputTerm,
                             Unknowns = unknowns,
                             Functions = [getHeaderFunction]\<rparr>
                in Inr \<lparr>PermissionQuery = query, RequiredAllowPermission = policy\<rparr>)))"

text \<open>The spec's \<open>replace(N, ".", "_")\<close>: every dot becomes an underscore.\<close>

definition replace_dots :: "string \<Rightarrow> string" where
  "replace_dots N = map (\<lambda>c. if c = CHR ''.'' then CHR ''_'' else c) N"

section \<open>Response helpers\<close>

text \<open>The struct \<^verbatim>\<open>types.RequestError\<close>, with the fields the struct literal of
  \<^verbatim>\<open>failResponseWithCode\<close> names.\<close>

record RequestError =
  StatusCode :: int
  Error :: string
  Message :: string

text \<open>\<^verbatim>\<open>failResponseWithCode(w, statusCode, technicalError, businessError)\<close>; \<^verbatim>\<open>json.Marshal\<close> is a
  parameter, and when it fails nothing is written after the status line.\<close>

definition failResponseWithCode ::
  "(RequestError \<Rightarrow> string + string) \<Rightarrow> ResponseWriter \<Rightarrow> int \<Rightarrow> string \<Rightarrow> string \<Rightarrow> ResponseWriter" where
  "failResponseWithCode json_Marshal w statusCode technicalError businessError =
     (let w1 = WriteHeader statusCode w in
      case json_Marshal \<lparr>StatusCode = statusCode, Error = technicalError, Message = businessError\<rparr> of
        Inl err \<Rightarrow> w1
      | Inr content \<Rightarrow> Write content w1)"

definition failResponse ::
  "(RequestError \<Rightarrow> string + string) \<Rightarrow> ResponseWriter \<Rightarrow> string \<Rightarrow> string \<Rightarrow> ResponseWriter" where
  "failResponse json_Marshal w technicalError businessError =
     failResponseWithCode json_Marshal w StatusInternalServerError technicalError businessError"

text \<open>\<^verbatim>\<open>unmarshalHeader(headers, headerKey, v)\<close>.  \<^verbatim>\<open>json.Unmarshal\<close> is a parameter: from the text
  and the target it gives the error, if any, and the target as it leaves it.  The result is the
  pair the function returns, together with the target afterwards.\<close>

definition unmarshalHeader ::
  "(string \<Rightarrow> string) \<Rightarrow> (string \<Rightarrow> 'v \<Rightarrow> string option \<times> 'v) \<Rightarrow>
   http_Header \<Rightarrow> string \<Rightarrow> 'v \<Rightarrow> (bool \<times> string option) \<times> 'v" where
  "unmarshalHeader canon json_Unmarshal headers headerKey v =
     (let headerValueStringified = Header_Get canon headers headerKey in
      if headerValueStringified \<noteq> [] then
        (let (err, v') = json_Unmarshal headerValueStringified v
         in ((err = None, err), v'))
      else ((False, None), v))"

section \<open>Proxy handler\<close>

record Environment =
  HostURL :: string

text \<open>The \<^verbatim>\<open>Director\<close> closure of \<^verbatim>\<open>rbacHandler\<close>.  \<^verbatim>\<open>Header.Set\<close> stores the one-element list
  under the canonical form of its key, which for the literal \<^verbatim>\<open>User-Agent\<close> is the key itself.\<close>

definition Director :: "string \<Rightarrow> 'c Request \<Rightarrow> 'c Request" where
  "Director targetHostFromEnv req =
     (let req1 = req\<lparr>url := (url req)\<lparr>Host := targetHostFromEnv\<rparr>\<rparr> in
      if Header req1 ''User-Agent'' = None
      then req1\<lparr>Header := (Header req1)(''User-Agent'' \<mapsto> [[]])\<rparr>
      else req1)"

text \<open>\<^verbatim>\<open>httputil.ReverseProxy.ServeHTTP\<close>, up to the point where the library hands the request
  that the director has rewritten to its transport.\<close>

definition ReverseProxy_ServeHTTP ::
  "('c Request \<Rightarrow> 'c Request) \<Rightarrow> ResponseWriter \<Rightarrow> 'c Request \<Rightarrow> 'c Outcome" where
  "ReverseProxy_ServeHTTP director w req = Forwarded w (director req)"

text \<open>\<^verbatim>\<open>rbacHandler(w, req)\<close>; \<^verbatim>\<open>GetEnv\<close> is a parameter that reads the context and may fail.\<close>

definition rbacHandler ::
  "('c \<Rightarrow> string + Environment) \<Rightarrow> ResponseWriter \<Rightarrow> 'c Request \<Rightarrow> 'c Outcome" where
  "rbacHandler GetEnv w req =
     (case GetEnv (Ctx req) of
        Inl err \<Rightarrow> Responded (WriteHeader StatusInternalServerError w)
      | Inr env \<Rightarrow>
          (let targetHostFromEnv = HostURL env
           in ReverseProxy_ServeHTTP (Director targetHostFromEnv) w req))"

section \<open>The header built-in and the policy middleware\<close>

definition toUpper :: "char \<Rightarrow> char" where
  "toUpper c = (let n = (of_char c :: nat) in if 97 \<le> n \<and> n \<le> 122 then char_of (n - 32) else c)"

definition toLower :: "char \<Rightarrow> char" where
  "toLower c = (let n = (of_char c :: nat) in if 65 \<le> n \<and> n \<le> 90 then char_of (n + 32) else c)"

text \<open>Modelled from the spec: the canonical form of a header key, whose implementation is not
  among the sources.  Each hyphen-separated segment begins with an upper-case letter; the other
  letters are lower case, as the scenario of the built-in requires (\<^verbatim>\<open>ExAmPlEkEy\<close> finds the
  header that was added as \<^verbatim>\<open>exampleKey\<close>).\<close>

fun canonical_from :: "bool \<Rightarrow> string \<Rightarrow> string" where
  "canonical_from upper [] = []"
| "canonical_from upper (c # cs) =
     (if upper then toUpper c else toLower c) # canonical_from (c = CHR ''-'') cs"

definition canonical :: "string \<Rightarrow> string" where
  "canonical k = canonical_from True k"

text \<open>Modelled from the spec: the built-in \<^verbatim>\<open>get_header(headerKey, headers)\<close>, whose implementation
  is not among the sources.  It returns the first value of \<open>headers[canonical(headerKey)]\<close> if
  present, else the empty string.\<close>

definition get_header :: "string \<Rightarrow> http_Header \<Rightarrow> string" where
  "get_header headerKey headers =
     (case headers (canonical headerKey) of
        None \<Rightarrow> []
      | Some vs \<Rightarrow> (case vs of [] \<Rightarrow> [] | v # _ \<Rightarrow> v))"

text \<open>Two keys that differ only in the case of their letters.\<close>

definition same_modulo_case :: "string \<Rightarrow> string \<Rightarrow> bool" where
  "same_modulo_case k k' = (map toLower k = map toLower k')"

record RequestFlow =
  PolicyName :: string

record ResponseFlow =
  ResponsePolicyName :: string

record RondConfig =
  requestFlow :: RequestFlow
  responseFlow :: ResponseFlow

record RouterInfo =
  MatchedPath :: string
  RequestedPath :: string
  RouterMethod :: string

text \<open>The values that the middleware attaches to the context of the request.\<close>

record Context =
  XPermission :: "RondConfig option"
  RouterInfoKey :: "RouterInfo option"
  OPAModuleConfigKey :: "OPAModuleConfig option"

definition emptyContext :: Context where
  "emptyContext = \<lparr>XPermission = None, RouterInfoKey = None, OPAModuleConfigKey = None\<rparr>"

text \<open>The fields of \<^verbatim>\<open>config.EnvironmentVariables\<close> that the tests of the middleware set.\<close>

record EnvironmentVariables =
  TargetServiceOASPath :: string
  Standalone :: bool
  PathPrefixStandalone :: string

text \<open>Modelled from the spec: the path that the middleware looks up, whose implementation is not
  among the sources.  In standalone mode a single occurrence of the prefix, the first, is
  stripped from the requested path.\<close>

definition routedPath :: "EnvironmentVariables \<Rightarrow> string \<Rightarrow> string" where
  "routedPath envs path =
     (if Standalone envs then strings_Replace path (PathPrefixStandalone envs) [] 1 else path)"

text \<open>Modelled from the spec: the policy middleware \<^verbatim>\<open>OPAMiddleware\<close>, whose implementation is not
  among the sources (its tests are).  The route table is the parameter \<open>lookup\<close>, from method and
  path to the configuration and the matched template; \<open>denied\<close> holds the two texts of the
  answer for a route without permission, which the spec leaves open.  A request for the
  documentation path passes; a request that matches no route is answered 404; a route whose
  policy name is empty is answered 403; any other request goes to the next handler with the
  configuration, the router info and the module in its context.\<close>

definition OPAMiddleware ::
  "(RequestError \<Rightarrow> string + string) \<Rightarrow> string \<times> string \<Rightarrow> OPAModuleConfig \<Rightarrow>
   (string \<Rightarrow> string \<Rightarrow> (RondConfig \<times> string) option) \<Rightarrow> EnvironmentVariables \<Rightarrow>
   ResponseWriter \<Rightarrow> Context Request \<Rightarrow> Context Outcome" where
  "OPAMiddleware json_Marshal denied opaModuleConfig lookup envs w r =
     (let path = routedPath envs (Path (url r)) in
      if Path (url r) = TargetServiceOASPath envs then Forwarded w r
      else
        (case lookup (Method r) path of
           None \<Rightarrow>
             Responded (failResponseWithCode json_Marshal w StatusNotFound
               (''not found oas definition: '' @ Method r @ '' '' @ path)
               ''The request doesn't match any known API'')
         | Some (cfg, matched) \<Rightarrow>
             if PolicyName (requestFlow cfg) = []
             then Responded
               (failResponseWithCode json_Marshal w StatusForbidden (fst denied) (snd denied))
             else Forwarded w
               (r\<lparr>Ctx := (Ctx r)\<lparr>XPermission := Some cfg,
                      RouterInfoKey := Some \<lparr>MatchedPath = matched,
                                             RequestedPath = Path (url r),
                                             RouterMethod = Method r\<rparr>,
                      OPAModuleConfigKey := Some opaModuleConfig\<rparr>\<rparr>)))"

text \<open>The routes of \<^verbatim>\<open>mocks/simplifiedMock.json\<close> that the tests exercise, with literal paths.\<close>

definition mkConfig :: "string \<Rightarrow> RondConfig" where
  "mkConfig p = \<lparr>requestFlow = \<lparr>PolicyName = p\<rparr>, responseFlow = \<lparr>ResponsePolicyName = []\<rparr>\<rparr>"

definition simplifiedMock :: "string \<Rightarrow> string \<Rightarrow> (RondConfig \<times> string) option" where
  "simplifiedMock method path =
     (if method = ''GET'' \<and> path = ''/users/'' then Some (mkConfig ''todo'', path)
      else if method = ''GET'' \<and> path = ''/composed/permission/''
        then Some (mkConfig ''very.very.composed.permission'', path)
      else if method = ''GET'' \<and> path = ''/eval/composed/permission/''
        then Some (mkConfig ''very.very.composed.permission.with.eval'', path)
      else if method = ''POST'' \<and> path = ''/no-permission'' then Some (mkConfig [], path)
      else None)"

definition mkRequest :: "string \<Rightarrow> string \<Rightarrow> Context Request" where
  "mkRequest method path =
     \<lparr>Method = method,
      url = \<lparr>Scheme = ''http'', Host = ''example.com'', Path = path, RawQuery = []\<rparr>,
      Header = Map.empty, Body = [], Ctx = emptyContext\<rparr>"

section \<open>Fixtures of the tests\<close>

text \<open>The environments, route tables and module that \<^verbatim>\<open>opamiddleware_test.go\<close> sets up, and
  stand-ins for the library encoders where a concrete run needs one.\<close>

definition testEnvs :: EnvironmentVariables where
  "testEnvs = \<lparr>TargetServiceOASPath = [], Standalone = False, PathPrefixStandalone = []\<rparr>"

definition standaloneEnvs :: EnvironmentVariables where
  "standaloneEnvs = \<lparr>TargetServiceOASPath = [], Standalone = True, PathPrefixStandalone = ''/eval''\<rparr>"

definition documentationEnvs :: EnvironmentVariables where
  "documentationEnvs =
     \<lparr>TargetServiceOASPath = ''/documentation/json'', Standalone = False, PathPrefixStandalone = []\<rparr>"

definition documentationPathMock :: "string \<Rightarrow> string \<Rightarrow> (RondConfig \<times> string) option" where
  "documentationPathMock method path =
     (if path = ''/documentation/json'' then Some (mkConfig [], path) else None)"

definition exampleModule :: OPAModuleConfig where
  "exampleModule = \<lparr>Name = ''example.rego'', Content = ''package policies very_very_composed_permission { true }''\<rparr>"

text \<open>A stand-in for \<^verbatim>\<open>json.Marshal\<close> on a \<^verbatim>\<open>RequestError\<close>: it never fails.\<close>

definition encodeMessage :: "RequestError \<Rightarrow> string + string" where
  "encodeMessage e = Inr (Message e)"

text \<open>A stand-in for \<^verbatim>\<open>json.Unmarshal\<close> into a boolean target.\<close>

definition decodeFlag :: "string \<Rightarrow> bool \<Rightarrow> string option \<times> bool" where
  "decodeFlag s v =
     (if s = ''true'' then (None, True)
      else if s = ''false'' then (None, False)
      else (Some ''invalid character'', v))"

section \<open>Properties of the library model\<close>

lemma replace_upto_dots:
  "count_occ ''.'' s \<le> k \<Longrightarrow> replace_upto k ''.'' ''_'' s = replace_dots s"
proof (induction s arbitrary: k)
  case Nil
  then show ?case by (cases k) (simp_all add: replace_dots_def)
next
  case (Cons c cs)
  show ?case
  proof (cases "c = CHR ''.''")
    case True
    with Cons.prems obtain k' where k: "k = Suc k'" and le: "count_occ ''.'' cs \<le> k'"
      by (cases k) auto
    from Cons.IH [OF le] True k show ?thesis
      by (simp add: replace_dots_def)
  next
    case False
    with Cons.prems have le: "count_occ ''.'' cs \<le> k" by simp
    show ?thesis
    proof (cases k)
      case 0
      with le have z: "count_occ ''.'' cs = 0" by simp
      from Cons.IH [of 0] z have "replace_dots cs = cs" by simp
      with 0 False show ?thesis by (simp add: replace_dots_def)
    next
      case (Suc k')
      with Cons.IH [OF le] False show ?thesis by (simp add: replace_dots_def)
    qed
  qed
qed

lemma strings_Replace_dots: "strings_Replace N ''.'' ''_'' (- 1) = replace_dots N"
proof (cases "count_occ ''.'' N = 0")
  case True
  from replace_upto_dots [of N 0] True have "replace_dots N = N" by simp
  with True show ?thesis by (simp add: strings_Replace_def strings_Count_def)
next
  case False
  then show ?thesis
    by (simp add: strings_Replace_def strings_Count_def Let_def replace_upto_dots)
qed

lemma count_occ_first:
  "old \<noteq> [] \<Longrightarrow> \<forall>i<length pre. \<not> prefix old (drop i (pre @ old @ post)) \<Longrightarrow>
   count_occ old (pre @ old @ post) = Suc (count_occ old post)"
proof (induction pre)
  case Nil
  then obtain a as where "old = a # as" by (cases old) auto
  then show ?case by simp
next
  case (Cons c pre)
  from Cons.prems(2) have no: "\<not> prefix old (c # pre @ old @ post)"
    by (auto dest: spec [of _ 0])
  have "\<forall>i<length pre. \<not> prefix old (drop i (pre @ old @ post))"
  proof (intro allI impI)
    fix i assume "i < length pre"
    then have "Suc i < length (c # pre)" by simp
    with Cons.prems(2) have "\<not> prefix old (drop (Suc i) ((c # pre) @ old @ post))" by blast
    then show "\<not> prefix old (drop i (pre @ old @ post))" by simp
  qed
  with Cons.IH Cons.prems(1) have "count_occ old (pre @ old @ post) = Suc (count_occ old post)"
    by blast
  with no show ?case by simp
qed

lemma replace_upto_first:
  "old \<noteq> [] \<Longrightarrow> \<forall>i<length pre. \<not> prefix old (drop i (pre @ old @ post)) \<Longrightarrow>
   replace_upto (Suc k) old new (pre @ old @ post) = pre @ new @ replace_upto k old new post"
proof (induction pre)
  case Nil
  then obtain a as where "old = a # as" by (cases old) auto
  then show ?case by simp
next
  case (Cons c pre)
  from Cons.prems(2) have no: "\<not> prefix old (c # pre @ old @ post)"
    by (auto dest: spec [of _ 0])
  have "\<forall>i<length pre. \<not> prefix old (drop i (pre @ old @ post))"
  proof (intro allI impI)
    fix i assume "i < length pre"
    then have "Suc i < length (c # pre)" by simp
    with Cons.prems(2) have "\<not> prefix old (drop (Suc i) ((c # pre) @ old @ post))" by blast
    then show "\<not> prefix old (drop i (pre @ old @ post))" by simp
  qed
  with Cons.IH Cons.prems(1)
  have "replace_upto (Suc k) old new (pre @ old @ post) = pre @ new @ replace_upto k old new post"
    by blast
  with no show ?case by simp
qed

lemma count_occ_none:
  "\<forall>i<length s. \<not> prefix old (drop i s) \<Longrightarrow> count_occ old s = 0"
proof (induction s)
  case Nil
  show ?case by simp
next
  case (Cons c s)
  from Cons.prems have no: "\<not> prefix old (c # s)"
    by (auto dest: spec [of _ 0])
  have "\<forall>i<length s. \<not> prefix old (drop i s)"
  proof (intro allI impI)
    fix i assume "i < length s"
    then have "Suc i < length (c # s)" by simp
    with Cons.prems have "\<not> prefix old (drop (Suc i) (c # s))" by blast
    then show "\<not> prefix old (drop i s)" by simp
  qed
  with Cons.IH no show ?case by simp
qed

lemma strings_Replace_first:
  assumes "\<forall>i<length pre. \<not> prefix old (drop i (pre @ old @ post))"
  shows "strings_Replace (pre @ old @ post) old [] 1 = pre @ post"
proof (cases "old = []")
  case True
  with assms have "pre = []" by (cases pre) auto
  with True show ?thesis by (simp add: strings_Replace_def)
next
  case False
  from count_occ_first [OF False assms] replace_upto_first [OF False assms, of 0 "[]"] False
  show ?thesis
    by (simp add: strings_Replace_def strings_Count_def Let_def)
qed

lemma strings_Replace_absent:
  assumes "\<forall>i<length s. \<not> prefix old (drop i s)"
  shows "strings_Replace s old [] n = s"
proof (cases "old = []")
  case True
  then show ?thesis by (simp add: strings_Replace_def)
next
  case False
  with count_occ_none [OF assms] show ?thesis
    by (simp add: strings_Replace_def strings_Count_def)
qed

section \<open>Properties of the response writer\<close>

lemma WriteHeader_fresh:
  "\<not> wroteHeader w \<Longrightarrow> WriteHeader c w = w\<lparr>wroteHeader := True, Code := c\<rparr>"
  by (simp add: WriteHeader_def)


lemma WriteHeader_wrote: "wroteHeader (WriteHeader c w)"
  by (simp add: WriteHeader_def)


lemma Write_Code: "wroteHeader w \<Longrightarrow> Code (Write b w) = Code w"
  by (simp add: Write_def Let_def)


lemma failResponseWithCode_Code:
  "\<not> wroteHeader w \<Longrightarrow> Code (failResponseWithCode jm w c t b) = c"
  by (simp add: failResponseWithCode_def Let_def Write_Code WriteHeader_wrote WriteHeader_fresh split: sum.split)

lemma failResponseWithCode_Body:
  "jm \<lparr>StatusCode = c, Error = t, Message = b\<rparr> = Inr content \<Longrightarrow>
   BodyBytes (failResponseWithCode jm w c t b) = BodyBytes w @ content"
  by (simp add: failResponseWithCode_def Let_def Write_def WriteHeader_def)

section \<open>Policy names and the query of the evaluator\<close>

text \<open>
  Claim C1.  For every policy name \<open>N\<close> (in particular every name over letters, digits,
  underscore and dot), an evaluator that \<open>NewOPAEvaluator\<close> builds for \<open>N\<close> has the query
  \<^verbatim>\<open>data.policies.\<close> followed by \<open>N\<close> with every dot replaced by an underscore, and
  \<open>RequiredAllowPermission\<close> is \<open>N\<close> itself; the evaluator is built whenever the input encodes
  and parses.  The configuration that the middleware puts in the
  context of the request is the one of the route table, so its policy name is \<open>N\<close> in dot form.
\<close>

theorem NewOPAEvaluator_query:
  "(NewOPAEvaluator json_Marshal ast_ParseTerm N opaModuleConfig input = Inr ev \<longrightarrow>
      Query (PermissionQuery ev) = ''data.policies.'' @ replace_dots N
      \<and> RequiredAllowPermission ev = N)
   \<and> (json_Marshal input = Inr inputBytes \<and> ast_ParseTerm inputBytes = Inr inputTerm \<longrightarrow>
      NewOPAEvaluator json_Marshal ast_ParseTerm N opaModuleConfig input
        = Inr \<lparr>PermissionQuery =
                 \<lparr>Query = ''data.policies.'' @ replace_dots N,
                  Module = (Name opaModuleConfig, Content opaModuleConfig),
                  ParsedInput = inputTerm, Unknowns = unknowns,
                  Functions = [getHeaderFunction]\<rparr>,
               RequiredAllowPermission = N\<rparr>)
   \<and> (lookup (Method r) (routedPath envs (Path (url r))) = Some (cfg, matched)
      \<and> PolicyName (requestFlow cfg) = N \<and> N \<noteq> []
      \<and> Path (url r) \<noteq> TargetServiceOASPath envs \<longrightarrow>
      (\<exists>r'. OPAMiddleware marshalError denied opaModuleConfig lookup envs w r = Forwarded w r'
           \<and> XPermission (Ctx r') = Some cfg
           \<and> map_option (\<lambda>c. PolicyName (requestFlow c)) (XPermission (Ctx r')) = Some N))"
proof -
  have "NewOPAEvaluator json_Marshal ast_ParseTerm N opaModuleConfig input = Inr ev \<longrightarrow>
      Query (PermissionQuery ev) = ''data.policies.'' @ replace_dots N
      \<and> RequiredAllowPermission ev = N"
    by (auto simp add: NewOPAEvaluator_def Let_def strings_Replace_dots split: sum.splits)
  moreover have "json_Marshal input = Inr inputBytes \<and> ast_ParseTerm inputBytes = Inr inputTerm \<longrightarrow>
      NewOPAEvaluator json_Marshal ast_ParseTerm N opaModuleConfig input
        = Inr \<lparr>PermissionQuery =
                 \<lparr>Query = ''data.policies.'' @ replace_dots N,
                  Module = (Name opaModuleConfig, Content opaModuleConfig),
                  ParsedInput = inputTerm, Unknowns = unknowns,
                  Functions = [getHeaderFunction]\<rparr>,
               RequiredAllowPermission = N\<rparr>"
    by (simp add: NewOPAEvaluator_def Let_def strings_Replace_dots)
  moreover have "lookup (Method r) (routedPath envs (Path (url r))) = Some (cfg, matched)
      \<and> PolicyName (requestFlow cfg) = N \<and> N \<noteq> []
      \<and> Path (url r) \<noteq> TargetServiceOASPath envs \<longrightarrow>
      (\<exists>r'. OPAMiddleware marshalError denied opaModuleConfig lookup envs w r = Forwarded w r'
           \<and> XPermission (Ctx r') = Some cfg
           \<and> map_option (\<lambda>c. PolicyName (requestFlow c)) (XPermission (Ctx r')) = Some N)"
    by (auto simp add: OPAMiddleware_def Let_def)
  ultimately show ?thesis by blast
qed

theorem NewOPAEvaluator_query_witness:
  "NewOPAEvaluator (\<lambda>i. Inr ''{}'') Inr ''very.very.composed.permission'' exampleModule ()
     = Inr \<lparr>PermissionQuery =
              \<lparr>Query = ''data.policies.very_very_composed_permission'',
               Module = (Name exampleModule, Content exampleModule),
               ParsedInput = ''{}'', Unknowns = unknowns, Functions = [getHeaderFunction]\<rparr>,
            RequiredAllowPermission = ''very.very.composed.permission''\<rparr>
   \<and> ''data.policies.'' @ replace_dots ''very.very.composed.permission''
     = ''data.policies.very_very_composed_permission''
   \<and> (\<exists>r'. OPAMiddleware encodeMessage ([], []) exampleModule simplifiedMock testEnvs NewRecorder
              (mkRequest ''GET'' ''/composed/permission/'') = Forwarded NewRecorder r'
         \<and> XPermission (Ctx r') = Some (mkConfig ''very.very.composed.permission''))"
proof -
  let ?N = "''very.very.composed.permission''"
  let ?r = "mkRequest ''GET'' ''/composed/permission/''"
  let ?ev = "\<lparr>PermissionQuery =
              \<lparr>Query = ''data.policies.'' @ strings_Replace ?N ''.'' ''_'' (- 1),
               Module = (Name exampleModule, Content exampleModule),
               ParsedInput = ''{}'', Unknowns = unknowns, Functions = [getHeaderFunction]\<rparr>,
            RequiredAllowPermission = ?N\<rparr>"
  note t = NewOPAEvaluator_query [where json_Marshal = "\<lambda>i. Inr ''{}''" and ast_ParseTerm = Inr
      and N = ?N and opaModuleConfig = exampleModule and input = "()" and ev = ?ev
      and lookup = simplifiedMock and r = ?r and envs = testEnvs
      and cfg = "mkConfig ?N" and matched = "''/composed/permission/''"
      and marshalError = encodeMessage and denied = "([], [])" and w = NewRecorder]
  have h: "NewOPAEvaluator (\<lambda>i. Inr ''{}'') Inr ?N exampleModule () = Inr ?ev"
    by (simp add: NewOPAEvaluator_def Let_def)
  have d: "replace_dots ?N = ''very_very_composed_permission''"
    by (simp add: replace_dots_def)
  have l: "simplifiedMock (Method ?r) (routedPath testEnvs (Path (url ?r)))
      = Some (mkConfig ?N, ''/composed/permission/'')"
    by (simp add: simplifiedMock_def mkRequest_def routedPath_def testEnvs_def)
  have n: "PolicyName (requestFlow (mkConfig ?N)) = ?N" "?N \<noteq> []"
      "Path (url ?r) \<noteq> TargetServiceOASPath testEnvs"
    by (simp_all add: mkConfig_def mkRequest_def testEnvs_def)
  from t h have q: "Query (PermissionQuery ?ev) = ''data.policies.'' @ replace_dots ?N"
    by blast
  then have q': "strings_Replace ?N ''.'' ''_'' (- 1) = ''very_very_composed_permission''"
    using d by simp
  from t l n have m: "\<exists>r'. OPAMiddleware encodeMessage ([], []) exampleModule simplifiedMock testEnvs NewRecorder
              ?r = Forwarded NewRecorder r'
         \<and> XPermission (Ctx r') = Some (mkConfig ?N)"
    by blast
  from h q' d m show ?thesis by simp
qed

section \<open>Documentation passthrough\<close>

text \<open>
  Claim C2.  For every request whose path is the configured \<open>TargetServiceOASPath\<close>, the
  middleware hands writer and request to the next handler, whatever the route table \<open>lookup\<close>
  holds for that path: no route, a route without permission, or a route with one.
\<close>

theorem documentation_passthrough:
  "Path (url r) = TargetServiceOASPath envs \<Longrightarrow>
   OPAMiddleware marshalError denied opaModuleConfig lookup envs w r = Forwarded w r"
  by (simp add: OPAMiddleware_def Let_def)

theorem documentation_passthrough_witness:
  "OPAMiddleware encodeMessage ([], []) exampleModule documentationPathMock documentationEnvs
       NewRecorder (mkRequest ''POST'' ''/documentation/json'')
     = Forwarded NewRecorder (mkRequest ''POST'' ''/documentation/json'')
   \<and> OPAMiddleware encodeMessage ([], []) exampleModule simplifiedMock documentationEnvs
       NewRecorder (mkRequest ''GET'' ''/documentation/json'')
     = Forwarded NewRecorder (mkRequest ''GET'' ''/documentation/json'')
   \<and> OPAMiddleware encodeMessage ([], []) exampleModule
       (\<lambda>m p. Some (mkConfig ''foobar'', p)) documentationEnvs
       NewRecorder (mkRequest ''GET'' ''/documentation/json'')
     = Forwarded NewRecorder (mkRequest ''GET'' ''/documentation/json'')"
proof -
  have p: "Path (url (mkRequest m ''/documentation/json'')) = TargetServiceOASPath documentationEnvs" for m
    by (simp add: mkRequest_def documentationEnvs_def)
  from documentation_passthrough [OF p] show ?thesis by simp
qed

section \<open>The content type of an error response\<close>


section \<open>Routes without permission\<close>

text \<open>
  Claim C4.  For every request that matches a route whose policy name is empty: when its path is
  not the \<open>TargetServiceOASPath\<close>, the middleware answers through \<open>failResponseWithCode\<close> with
  403 (the status of the response when nothing had been written before) and does not reach the
  next handler; when its path is the \<open>TargetServiceOASPath\<close>, the request goes to the next handler.
\<close>

theorem missing_permission_forbidden:
  assumes "lookup (Method r) (routedPath envs (Path (url r))) = Some (cfg, matched)"
    and "PolicyName (requestFlow cfg) = []"
  shows "(Path (url r) \<noteq> TargetServiceOASPath envs \<longrightarrow>
           OPAMiddleware marshalError denied opaModuleConfig lookup envs w r
             = Responded (failResponseWithCode marshalError w 403 (fst denied) (snd denied))
           \<and> (\<not> wroteHeader w \<longrightarrow>
                Code (failResponseWithCode marshalError w 403 (fst denied) (snd denied)) = 403)
           \<and> (\<forall>w' r'. OPAMiddleware marshalError denied opaModuleConfig lookup envs w r
                \<noteq> Forwarded w' r'))
       \<and> (Path (url r) = TargetServiceOASPath envs \<longrightarrow>
            OPAMiddleware marshalError denied opaModuleConfig lookup envs w r = Forwarded w r)"
  using assms
  by (simp add: OPAMiddleware_def Let_def StatusForbidden_def failResponseWithCode_Code)

theorem missing_permission_forbidden_witness:
  "(\<exists>w'. OPAMiddleware encodeMessage ([], ''no permission'') exampleModule simplifiedMock testEnvs
       NewRecorder (mkRequest ''POST'' ''/no-permission'') = Responded w' \<and> Code w' = 403)
   \<and> OPAMiddleware encodeMessage ([], ''no permission'') exampleModule documentationPathMock
       documentationEnvs NewRecorder (mkRequest ''POST'' ''/documentation/json'')
     = Forwarded NewRecorder (mkRequest ''POST'' ''/documentation/json'')"
proof -
  let ?r = "mkRequest ''POST'' ''/no-permission''"
  let ?d = "mkRequest ''POST'' ''/documentation/json''"
  have l: "simplifiedMock (Method ?r) (routedPath testEnvs (Path (url ?r)))
      = Some (mkConfig [], ''/no-permission'')"
    by (simp add: simplifiedMock_def mkRequest_def routedPath_def testEnvs_def)
  have e: "PolicyName (requestFlow (mkConfig [])) = []"
    by (simp add: mkConfig_def)
  have n: "Path (url ?r) \<noteq> TargetServiceOASPath testEnvs"
    by (simp add: mkRequest_def testEnvs_def)
  have f: "\<not> wroteHeader NewRecorder"
    by (simp add: NewRecorder_def)
  have l': "documentationPathMock (Method ?d) (routedPath documentationEnvs (Path (url ?d)))
      = Some (mkConfig [], ''/documentation/json'')"
    by (simp add: documentationPathMock_def mkRequest_def routedPath_def documentationEnvs_def)
  have y: "Path (url ?d) = TargetServiceOASPath documentationEnvs"
    by (simp add: mkRequest_def documentationEnvs_def)
  note a = missing_permission_forbidden [where lookup = simplifiedMock and r = ?r and envs = testEnvs
      and cfg = "mkConfig []" and matched = "''/no-permission''" and marshalError = encodeMessage
      and denied = "([], ''no permission'')" and opaModuleConfig = exampleModule and w = NewRecorder]
  note b = missing_permission_forbidden [where lookup = documentationPathMock and r = ?d
      and envs = documentationEnvs and cfg = "mkConfig []" and matched = "''/documentation/json''"
      and marshalError = encodeMessage and denied = "([], ''no permission'')"
      and opaModuleConfig = exampleModule and w = NewRecorder]
  from a l e n f b l' y show ?thesis by blast
qed

section \<open>Header keys up to the case of their letters\<close>

lemma of_char_toLower:
  "(of_char (toLower c) :: nat) =
     (if 65 \<le> (of_char c :: nat) \<and> (of_char c :: nat) \<le> 90 then of_char c + 32 else of_char c)"
  unfolding toLower_def Let_def by simp

lemma toLower_idem: "toLower (toLower c) = toLower c"
  unfolding toLower_def Let_def by auto

lemma toUpper_toLower: "toUpper (toLower c) = toUpper c"
proof (cases "65 \<le> (of_char c :: nat) \<and> (of_char c :: nat) \<le> 90")
  case True
  then have "(of_char (toLower c) :: nat) = of_char c + 32"
    by (simp add: of_char_toLower)
  with True have "toUpper (toLower c) = c"
    unfolding toUpper_def Let_def by simp
  moreover from True have "toUpper c = c"
    unfolding toUpper_def Let_def by simp
  ultimately show ?thesis by simp
next
  case False
  then have "toLower c = c" unfolding toLower_def Let_def by auto
  then show ?thesis by simp
qed

lemma toLower_hyphen: "(toLower c = CHR ''-'') = (c = CHR ''-'')"
proof -
  have "(toLower c = CHR ''-'') = ((of_char (toLower c) :: nat) = of_char CHR ''-'')"
    by (simp only: of_char_eq_iff)
  also have "\<dots> = ((of_char c :: nat) = of_char CHR ''-'')"
    by (simp add: of_char_toLower)
  also have "\<dots> = (c = CHR ''-'')"
    by (simp only: of_char_eq_iff)
  finally show ?thesis .
qed

lemma toUpper_hyphen: "toUpper CHR ''-'' = CHR ''-''"
  unfolding toUpper_def Let_def by simp

lemma toLower_hyphen': "toLower CHR ''-'' = CHR ''-''"
  unfolding toLower_def Let_def by simp

lemma canonical_from_toLower: "canonical_from u (map toLower k) = canonical_from u k"
  by (induction k arbitrary: u) (simp_all add: toLower_idem toUpper_toLower toLower_hyphen)

lemma same_modulo_case_canonical: "same_modulo_case k k' \<Longrightarrow> canonical k = canonical k'"
  unfolding same_modulo_case_def canonical_def
  by (metis canonical_from_toLower)

lemma canonical_from_segment:
  "CHR ''-'' \<notin> set cs \<Longrightarrow> canonical_from False cs = map toLower cs"
  by (induction cs) auto

lemma canonical_from_append:
  "canonical_from u (a @ CHR ''-'' # b) = canonical_from u a @ CHR ''-'' # canonical_from True b"
  by (induction a arbitrary: u) (simp_all add: toUpper_hyphen toLower_hyphen')

section \<open>The header built-in, proved\<close>

text \<open>
  Claim C5.  For every header key \<open>k\<close> and header map \<open>headers\<close>, \<open>get_header k headers\<close> is the
  first element of the list stored under \<open>canonical k\<close> when there is one, and the empty string
  when the key is absent (or its list is empty).  Two keys that differ only in the case of their
  letters give the same result.  The canonical form capitalises each hyphen-separated segment:
  it distributes over the hyphen, and a segment without a hyphen gets its first letter in upper
  case and the others in lower case.  The built-in is a function of its two arguments alone.
\<close>

theorem get_header_first_value:
  "(headers (canonical k) = Some (v # vs) \<longrightarrow> get_header k headers = v)
   \<and> (headers (canonical k) = Some [] \<longrightarrow> get_header k headers = [])
   \<and> (headers (canonical k) = None \<longrightarrow> get_header k headers = [])
   \<and> (same_modulo_case k k' \<longrightarrow> get_header k headers = get_header k' headers)
   \<and> canonical (a @ CHR ''-'' # b) = canonical a @ CHR ''-'' # canonical b
   \<and> (CHR ''-'' \<notin> set (c # cs) \<longrightarrow> canonical (c # cs) = toUpper c # map toLower cs)"
proof -
  have "same_modulo_case k k' \<longrightarrow> get_header k headers = get_header k' headers"
    by (simp add: get_header_def same_modulo_case_canonical)
  moreover have "canonical (a @ CHR ''-'' # b) = canonical a @ CHR ''-'' # canonical b"
    by (simp add: canonical_def canonical_from_append)
  moreover have "CHR ''-'' \<notin> set (c # cs) \<longrightarrow> canonical (c # cs) = toUpper c # map toLower cs"
    by (auto simp add: canonical_def canonical_from_segment)
  ultimately show ?thesis
    by (simp add: get_header_def)
qed

theorem get_header_first_value_witness:
  "canonical ''ExAmPlEkEy'' = ''Examplekey'' \<and> canonical ''exampleKey'' = ''Examplekey''
   \<and> same_modulo_case ''ExAmPlEkEy'' ''exampleKey''
   \<and> get_header ''ExAmPlEkEy'' [''Examplekey'' \<mapsto> [''value'']] = ''value''
   \<and> get_header ''exampleKey'' [''Examplekey'' \<mapsto> [''value'']] = ''value''
   \<and> get_header ''ExAmPlEkEy'' Map.empty = []
   \<and> get_header ''ExAmPlEkEy'' [''Examplekey'' \<mapsto> []] = []
   \<and> canonical ''x-api-key'' = ''X-Api-Key''"
proof -
  have c1: "canonical ''ExAmPlEkEy'' = ''Examplekey''"
    by code_simp
  have c2: "canonical ''exampleKey'' = ''Examplekey''"
    by code_simp
  have c3: "canonical ''x-api-key'' = ''X-Api-Key''"
    by code_simp
  have s: "same_modulo_case ''ExAmPlEkEy'' ''exampleKey''"
    by code_simp
  have h: "[''Examplekey'' \<mapsto> [''value'']] (canonical ''ExAmPlEkEy'') = Some (''value'' # [])"
    by (simp add: c1)
  note t = get_header_first_value [of "[''Examplekey'' \<mapsto> [''value'']]" "''ExAmPlEkEy''" "''value''" "[]" "''exampleKey''"]
  from t h have g1: "get_header ''ExAmPlEkEy'' [''Examplekey'' \<mapsto> [''value'']] = ''value''"
    by blast
  from t s g1 have g2: "get_header ''exampleKey'' [''Examplekey'' \<mapsto> [''value'']] = ''value''"
    by metis
  have g3: "get_header ''ExAmPlEkEy'' Map.empty = []"
    using get_header_first_value [of Map.empty "''ExAmPlEkEy''"] by simp
  have g4: "get_header ''ExAmPlEkEy'' [''Examplekey'' \<mapsto> []] = []"
    using get_header_first_value [of "[''Examplekey'' \<mapsto> []]" "''ExAmPlEkEy''"] c1 by simp
  from c1 c2 c3 s g1 g2 g3 g4 show ?thesis by blast
qed

section \<open>Standalone mode\<close>

text \<open>
  Claim C7.  In standalone mode the path that is looked up is the requested path without the
  first occurrence of \<open>PathPrefixStandalone\<close>: if the path is \<open>pre @ prefix @ post\<close> and the prefix
  does not occur at an earlier position, the routed path is \<open>pre @ post\<close>, so that later
  occurrences stay (a path in which the prefix does not occur has nothing to strip and is looked
  up as it is).  With the prefix \<^verbatim>\<open>/eval\<close>, \<^verbatim>\<open>/eval/eval/composed/permission/\<close> is routed as
  \<^verbatim>\<open>/eval/composed/permission/\<close>.  When standalone mode is off the path is looked up unchanged.
  The route table is consulted at the routed path only.
\<close>

theorem standalone_strips_first_occurrence:
  "(Standalone envs \<and> path = pre @ PathPrefixStandalone envs @ post
      \<and> (\<forall>i<length pre. \<not> prefix (PathPrefixStandalone envs) (drop i path))
      \<longrightarrow> routedPath envs path = pre @ post)
   \<and> (Standalone envs \<and> (\<forall>i<length path. \<not> prefix (PathPrefixStandalone envs) (drop i path))
      \<longrightarrow> routedPath envs path = path)
   \<and> (Standalone envs \<and> PathPrefixStandalone envs = ''/eval''
      \<longrightarrow> routedPath envs ''/eval/eval/composed/permission/'' = ''/eval/composed/permission/'')
   \<and> (\<not> Standalone envs \<longrightarrow> routedPath envs path = path)
   \<and> (lookup (Method r) (routedPath envs (Path (url r)))
        = lookup' (Method r) (routedPath envs (Path (url r)))
      \<longrightarrow> OPAMiddleware marshalError denied opaModuleConfig lookup envs w r
        = OPAMiddleware marshalError denied opaModuleConfig lookup' envs w r)"
proof -
  have a: "Standalone envs \<and> path = pre @ PathPrefixStandalone envs @ post
      \<and> (\<forall>i<length pre. \<not> prefix (PathPrefixStandalone envs) (drop i path))
      \<longrightarrow> routedPath envs path = pre @ post"
    by (auto simp add: routedPath_def strings_Replace_first)
  have b: "Standalone envs \<and> (\<forall>i<length path. \<not> prefix (PathPrefixStandalone envs) (drop i path))
      \<longrightarrow> routedPath envs path = path"
    by (auto simp add: routedPath_def strings_Replace_absent)
  have "strings_Replace ([] @ ''/eval'' @ ''/eval/composed/permission/'') ''/eval'' [] 1
      = [] @ ''/eval/composed/permission/''"
    by (rule strings_Replace_first) simp
  then have c: "Standalone envs \<and> PathPrefixStandalone envs = ''/eval''
      \<longrightarrow> routedPath envs ''/eval/eval/composed/permission/'' = ''/eval/composed/permission/''"
    by (simp add: routedPath_def)
  have d: "\<not> Standalone envs \<longrightarrow> routedPath envs path = path"
    by (simp add: routedPath_def)
  have e: "lookup (Method r) (routedPath envs (Path (url r)))
        = lookup' (Method r) (routedPath envs (Path (url r)))
      \<longrightarrow> OPAMiddleware marshalError denied opaModuleConfig lookup envs w r
        = OPAMiddleware marshalError denied opaModuleConfig lookup' envs w r"
    by (simp add: OPAMiddleware_def Let_def)
  from a b c d e show ?thesis by blast
qed

theorem standalone_strips_first_occurrence_witness:
  "routedPath standaloneEnvs ''/eval/eval/composed/permission/'' = ''/eval/composed/permission/''
   \<and> routedPath standaloneEnvs ''/eval/composed/permission/'' = ''/composed/permission/''
   \<and> routedPath standaloneEnvs ''/api/eval/x/eval'' = ''/api/x/eval''
   \<and> routedPath standaloneEnvs ''/users/'' = ''/users/''
   \<and> routedPath (standaloneEnvs\<lparr>Standalone := False\<rparr>) ''/eval/composed/permission/''
       = ''/eval/composed/permission/''
   \<and> OPAMiddleware encodeMessage ([], []) exampleModule simplifiedMock standaloneEnvs NewRecorder
        (mkRequest ''GET'' ''/eval/eval/composed/permission/'')
       = OPAMiddleware encodeMessage ([], []) exampleModule
           (\<lambda>m p. if p = ''/eval/composed/permission/'' then simplifiedMock m p else None)
           standaloneEnvs NewRecorder (mkRequest ''GET'' ''/eval/eval/composed/permission/'')"
proof -
  have s: "Standalone standaloneEnvs" and p: "PathPrefixStandalone standaloneEnvs = ''/eval''"
    by (simp_all add: standaloneEnvs_def)
  have r1: "routedPath standaloneEnvs ''/eval/eval/composed/permission/'' = ''/eval/composed/permission/''"
    using standalone_strips_first_occurrence [of standaloneEnvs] s p by blast
  have r2: "routedPath standaloneEnvs ''/eval/composed/permission/'' = ''/composed/permission/''"
    using standalone_strips_first_occurrence [of standaloneEnvs "''/eval/composed/permission/''" "[]" "''/composed/permission/''"] s p
    by simp
  have "\<forall>i<length ''/api''. \<not> prefix ''/eval'' (drop i ''/api/eval/x/eval'')"
    by (simp add: All_less_Suc)
  then have r3: "routedPath standaloneEnvs ''/api/eval/x/eval'' = ''/api/x/eval''"
    using standalone_strips_first_occurrence [of standaloneEnvs "''/api/eval/x/eval''" "''/api''" "''/x/eval''"] s p
    by simp
  have "\<forall>i<length ''/users/''. \<not> prefix ''/eval'' (drop i ''/users/'')"
    by (simp add: All_less_Suc)
  then have r4: "routedPath standaloneEnvs ''/users/'' = ''/users/''"
    using standalone_strips_first_occurrence [of standaloneEnvs "''/users/''"] s p
    by simp
  have r5: "routedPath (standaloneEnvs\<lparr>Standalone := False\<rparr>) ''/eval/composed/permission/''
       = ''/eval/composed/permission/''"
    using standalone_strips_first_occurrence [of "standaloneEnvs\<lparr>Standalone := False\<rparr>" "''/eval/composed/permission/''"]
    by simp
  have r6: "OPAMiddleware encodeMessage ([], []) exampleModule simplifiedMock standaloneEnvs NewRecorder
        (mkRequest ''GET'' ''/eval/eval/composed/permission/'')
       = OPAMiddleware encodeMessage ([], []) exampleModule
           (\<lambda>m p. if p = ''/eval/composed/permission/'' then simplifiedMock m p else None)
           standaloneEnvs NewRecorder (mkRequest ''GET'' ''/eval/eval/composed/permission/'')"
    using standalone_strips_first_occurrence [of standaloneEnvs _ _ _ simplifiedMock "mkRequest ''GET'' ''/eval/eval/composed/permission/''"
        "\<lambda>m p. if p = ''/eval/composed/permission/'' then simplifiedMock m p else None"] r1
    by (simp add: mkRequest_def)
  from r1 r2 r3 r4 r5 r6 show ?thesis by blast
qed

section \<open>The proxy handler without an environment\<close>

text \<open>
  Claim C8.  For every request, if \<open>GetEnv\<close> fails on the context of the request, \<open>rbacHandler\<close>
  answers by \<open>WriteHeader\<close> with 500 (on a writer that has not written its status line, the
  status becomes 500), and its outcome is not one of the reverse proxy, for any director.
\<close>

theorem rbacHandler_no_env:
  assumes "GetEnv (Ctx req) = Inl err"
  shows "rbacHandler GetEnv w req = Responded (WriteHeader 500 w)
    \<and> (\<not> wroteHeader w \<longrightarrow> WriteHeader 500 w = w\<lparr>wroteHeader := True, Code := 500\<rparr>)
    \<and> (\<forall>director w' req'. rbacHandler GetEnv w req \<noteq> ReverseProxy_ServeHTTP director w' req')"
  using assms
  by (simp add: rbacHandler_def StatusInternalServerError_def WriteHeader_def ReverseProxy_ServeHTTP_def)

theorem rbacHandler_no_env_witness:
  "rbacHandler (\<lambda>c. Inl ''no env found'') NewRecorder (mkRequest ''GET'' ''/users/'')
     = Responded \<lparr>HeaderMap = Map.empty, wroteHeader = True, Code = 500, BodyBytes = []\<rparr>"
  using rbacHandler_no_env [of "\<lambda>c. Inl ''no env found''" "mkRequest ''GET'' ''/users/''" "''no env found''" NewRecorder]
  by (simp add: NewRecorder_def)

section \<open>The director of the reverse proxy\<close>

text \<open>
  Claim C9.  The director sets the host of the URL to the \<open>HostURL\<close> of the environment and leaves
  scheme, path, query, method, body and context as they are.  Exactly when the header map has no
  \<^verbatim>\<open>User-Agent\<close> key, it stores the empty string under that key; no other header changes.  When
  \<open>GetEnv\<close> succeeds, the handler forwards the request as the director leaves it.
\<close>

theorem Director_rewrites_host_only:
  "url (Director h req) = (url req)\<lparr>Host := h\<rparr>
   \<and> Host (url (Director h req)) = h
   \<and> Scheme (url (Director h req)) = Scheme (url req)
   \<and> Path (url (Director h req)) = Path (url req)
   \<and> RawQuery (url (Director h req)) = RawQuery (url req)
   \<and> Method (Director h req) = Method req
   \<and> Body (Director h req) = Body req
   \<and> Ctx (Director h req) = Ctx req
   \<and> (Header req ''User-Agent'' = None \<longrightarrow>
        Header (Director h req) = (Header req)(''User-Agent'' \<mapsto> [[]]))
   \<and> (Header req ''User-Agent'' \<noteq> None \<longrightarrow> Header (Director h req) = Header req)
   \<and> (\<forall>k. k \<noteq> ''User-Agent'' \<longrightarrow> Header (Director h req) k = Header req k)
   \<and> (GetEnv (Ctx req) = Inr env \<longrightarrow>
        rbacHandler GetEnv w req = Forwarded w (Director (HostURL env) req))"
  by (simp add: Director_def Let_def rbacHandler_def ReverseProxy_ServeHTTP_def)

theorem Director_rewrites_host_only_witness:
  "rbacHandler (\<lambda>c. Inr \<lparr>HostURL = ''localhost:3000''\<rparr>) NewRecorder (mkRequest ''GET'' ''/users/'')
     = Forwarded NewRecorder
         \<lparr>Method = ''GET'',
          url = \<lparr>Scheme = ''http'', Host = ''localhost:3000'', Path = ''/users/'', RawQuery = []\<rparr>,
          Header = [''User-Agent'' \<mapsto> [[]]], Body = [], Ctx = emptyContext\<rparr>
   \<and> Director ''localhost:3000''
        ((mkRequest ''GET'' ''/users/'')\<lparr>Header := [''User-Agent'' \<mapsto> [''curl/8.0''], ''Accept'' \<mapsto> [''*/*'']]\<rparr>)
     = (mkRequest ''GET'' ''/users/'')
         \<lparr>url := \<lparr>Scheme = ''http'', Host = ''localhost:3000'', Path = ''/users/'', RawQuery = []\<rparr>,
          Header := [''User-Agent'' \<mapsto> [''curl/8.0''], ''Accept'' \<mapsto> [''*/*'']]\<rparr>"
proof -
  let ?r = "mkRequest ''GET'' ''/users/''"
  let ?r2 = "?r\<lparr>Header := [''User-Agent'' \<mapsto> [''curl/8.0''], ''Accept'' \<mapsto> [''*/*'']]\<rparr>"
  note a = Director_rewrites_host_only [of "''localhost:3000''" ?r "\<lambda>c. Inr \<lparr>HostURL = ''localhost:3000''\<rparr>" "\<lparr>HostURL = ''localhost:3000''\<rparr>" NewRecorder]
  note b = Director_rewrites_host_only [of "''localhost:3000''" ?r2 "\<lambda>c. Inr \<lparr>HostURL = ''localhost:3000''\<rparr>" "\<lparr>HostURL = ''localhost:3000''\<rparr>" NewRecorder]
  have h1: "Header ?r ''User-Agent'' = None" by (simp add: mkRequest_def)
  have h2: "Header ?r2 ''User-Agent'' \<noteq> None" by (simp add: mkRequest_def)
  have e1: "Director ''localhost:3000'' ?r = \<lparr>Method = ''GET'',
          url = \<lparr>Scheme = ''http'', Host = ''localhost:3000'', Path = ''/users/'', RawQuery = []\<rparr>,
          Header = [''User-Agent'' \<mapsto> [[]]], Body = [], Ctx = emptyContext\<rparr>"
    using a h1 by (intro Request.equality) (simp_all add: mkRequest_def)
  have e2: "Director ''localhost:3000'' ?r2 = ?r\<lparr>url := \<lparr>Scheme = ''http'', Host = ''localhost:3000'', Path = ''/users/'', RawQuery = []\<rparr>,
          Header := [''User-Agent'' \<mapsto> [''curl/8.0''], ''Accept'' \<mapsto> [''*/*'']]\<rparr>"
    using b h2 by (intro Request.equality) (simp_all add: mkRequest_def)
  from a e1 e2 show ?thesis by simp
qed

section \<open>Decoding a header\<close>

text \<open>
  Claim C10.  For every header map, key and target \<open>v\<close>: when the header is absent or its first
  value is the empty string, \<open>unmarshalHeader\<close> returns \<open>(false, nil)\<close> and the target is \<open>v\<close>.
  When the value is not empty, it returns \<open>(true, nil)\<close> with the decoded target if
  \<^verbatim>\<open>json.Unmarshal\<close> accepts the value, and \<open>false\<close> with the error of \<^verbatim>\<open>json.Unmarshal\<close> if it
  does not.  A first component \<open>true\<close> always comes with no error and an accepted value.
\<close>

theorem unmarshalHeader_result:
  "(headers (canon headerKey) = None \<longrightarrow> Header_Get canon headers headerKey = [])
   \<and> (Header_Get canon headers headerKey = [] \<longrightarrow>
        unmarshalHeader canon json_Unmarshal headers headerKey v = ((False, None), v))
   \<and> (Header_Get canon headers headerKey \<noteq> [] \<longrightarrow>
        (json_Unmarshal (Header_Get canon headers headerKey) v = (None, v') \<longrightarrow>
           unmarshalHeader canon json_Unmarshal headers headerKey v = ((True, None), v'))
        \<and> (json_Unmarshal (Header_Get canon headers headerKey) v = (Some e, v') \<longrightarrow>
           unmarshalHeader canon json_Unmarshal headers headerKey v = ((False, Some e), v')))
   \<and> (fst (fst (unmarshalHeader canon json_Unmarshal headers headerKey v)) \<longrightarrow>
        Header_Get canon headers headerKey \<noteq> []
        \<and> fst (json_Unmarshal (Header_Get canon headers headerKey) v) = None
        \<and> snd (fst (unmarshalHeader canon json_Unmarshal headers headerKey v)) = None)"
  by (auto simp add: unmarshalHeader_def Header_Get_def Let_def split: prod.splits)

theorem unmarshalHeader_result_witness:
  "unmarshalHeader (\<lambda>k. k) decodeFlag Map.empty ''Flag'' False = ((False, None), False)
   \<and> unmarshalHeader (\<lambda>k. k) decodeFlag [''Flag'' \<mapsto> [[]]] ''Flag'' False = ((False, None), False)
   \<and> unmarshalHeader (\<lambda>k. k) decodeFlag [''Flag'' \<mapsto> [''true'']] ''Flag'' False = ((True, None), True)
   \<and> unmarshalHeader (\<lambda>k. k) decodeFlag [''Flag'' \<mapsto> [''tru'']] ''Flag'' False
        = ((False, Some ''invalid character''), False)
   \<and> fst (fst (unmarshalHeader (\<lambda>k. k) decodeFlag [''Flag'' \<mapsto> [''true'']] ''Flag'' False))"
proof -
  have g0: "Header_Get (\<lambda>k. k) Map.empty ''Flag'' = []"
    and g1: "Header_Get (\<lambda>k. k) [''Flag'' \<mapsto> [[]]] ''Flag'' = []"
    and g2: "Header_Get (\<lambda>k. k) [''Flag'' \<mapsto> [''true'']] ''Flag'' = ''true''"
    and g3: "Header_Get (\<lambda>k. k) [''Flag'' \<mapsto> [''tru'']] ''Flag'' = ''tru''"
    by (simp_all add: Header_Get_def)
  have d2: "decodeFlag ''true'' False = (None, True)"
    and d3: "decodeFlag ''tru'' False = (Some ''invalid character'', False)"
    by (simp_all add: decodeFlag_def)
  have a: "unmarshalHeader (\<lambda>k. k) decodeFlag Map.empty ''Flag'' False = ((False, None), False)"
    using unmarshalHeader_result [of Map.empty "\<lambda>k. k" "''Flag''" decodeFlag False] g0 by simp
  have b: "unmarshalHeader (\<lambda>k. k) decodeFlag [''Flag'' \<mapsto> [[]]] ''Flag'' False = ((False, None), False)"
    using unmarshalHeader_result [of "[''Flag'' \<mapsto> [[]]]" "\<lambda>k. k" "''Flag''" decodeFlag False] g1 by simp
  have c: "unmarshalHeader (\<lambda>k. k) decodeFlag [''Flag'' \<mapsto> [''true'']] ''Flag'' False = ((True, None), True)"
    using unmarshalHeader_result [of "[''Flag'' \<mapsto> [''true'']]" "\<lambda>k. k" "''Flag''" decodeFlag False True] g2 d2
    by simp
  have d: "unmarshalHeader (\<lambda>k. k) decodeFlag [''Flag'' \<mapsto> [''tru'']] ''Flag'' False
        = ((False, Some ''invalid character''), False)"
    using unmarshalHeader_result [of "[''Flag'' \<mapsto> [''tru'']]" "\<lambda>k. k" "''Flag''" decodeFlag False False "''invalid character''"] g3 d3
    by simp
  from a b c d show ?thesis by simp
qed

end
